theory Spec2Isabelle
  imports Main "HOL-Library.List_Lexorder" "HOL-Library.Char_ord" "HOL-Library.Multiset"
begin

section \<open>JavaScript values, strings and objects\<close>

text \<open>
  Strings are modelled by their UTF-8 byte sequences (\<open>string\<close> is \<open>char list\<close>), so
  \<open>Buffer.from(s, 'utf8')\<close> is the identity on the bytes and \<open>buff.length\<close> is \<open>length\<close>.
  A plain object is an association list in insertion order with pairwise distinct keys.
  Numbers are integers. \<open>Array.prototype.sort\<close> without a comparator is \<open>sort\<close> in the
  lexicographic order of the bytes, which is the order of the code units on ASCII text.
\<close>

datatype jsval =
    JUndefined
  | JNull
  | JBool bool
  | JNum int
  | JStr string
  | JArr "jsval list"
  | JObj "(string \<times> jsval) list"

type_synonym 'v object = "(string \<times> 'v) list"

text \<open>Truthiness, as tested by \<open>if (x)\<close>, \<open>!x\<close> and \<open>x || y\<close>.\<close>

fun truthy :: "jsval \<Rightarrow> bool" where
  "truthy JUndefined = False"
| "truthy JNull = False"
| "truthy (JBool b) = b"
| "truthy (JNum n) = (n \<noteq> 0)"
| "truthy (JStr s) = (s \<noteq> [])"
| "truthy (JArr xs) = True"
| "truthy (JObj kv) = True"

text \<open>An optional string property: \<open>None\<close> is \<open>undefined\<close>; the empty string is falsy too.\<close>

fun truthy_str :: "string option \<Rightarrow> bool" where
  "truthy_str None = False"
| "truthy_str (Some s) = (s \<noteq> [])"

text \<open>\<open>x || ''\<close> for an optional string property.\<close>

fun or_empty :: "string option \<Rightarrow> string" where
  "or_empty None = []"
| "or_empty (Some s) = s"

fun show_nat :: "nat \<Rightarrow> string" where
  "show_nat n =
     (if n < 10 then [char_of (48 + n)]
      else show_nat (n div 10) @ [char_of (48 + n mod 10)])"

declare show_nat.simps [simp del]

definition show_int :: "int \<Rightarrow> string" where
  "show_int i = (if i < 0 then CHR ''-'' # show_nat (nat (- i)) else show_nat (nat i))"

text \<open>\<open>Array.prototype.join\<close> on strings.\<close>

fun array_join :: "string \<Rightarrow> string list \<Rightarrow> string" where
  "array_join sep [] = []"
| "array_join sep [x] = x"
| "array_join sep (x # y # ys) = x @ sep @ array_join sep (y # ys)"

text \<open>
  The conversion to a string that a template literal applies to an interpolated value.
  Inside an array, \<open>undefined\<close> and \<open>null\<close> elements print as the empty string.
\<close>

fun to_string :: "jsval \<Rightarrow> string" where
  "to_string JUndefined = ''undefined''"
| "to_string JNull = ''null''"
| "to_string (JBool b) = (if b then ''true'' else ''false'')"
| "to_string (JNum n) = show_int n"
| "to_string (JStr s) = s"
| "to_string (JArr xs) =
     array_join '',''
       (map (\<lambda>x. if x = JUndefined \<or> x = JNull then [] else to_string x) xs)"
| "to_string (JObj kv) = ''[object Object]''"

text \<open>\<open>${x}\<close> for an optional string property.\<close>

fun str_or_undefined :: "string option \<Rightarrow> string" where
  "str_or_undefined None = ''undefined''"
| "str_or_undefined (Some s) = s"

text \<open>\<open>obj[key] = v\<close>: an existing key keeps its place, a new key goes last.\<close>

fun set_prop :: "'v object \<Rightarrow> string \<Rightarrow> 'v \<Rightarrow> 'v object" where
  "set_prop [] k v = [(k, v)]"
| "set_prop ((k', v') # ps) k v =
     (if k' = k then (k, v) # ps else (k', v') # set_prop ps k v)"

text \<open>\<open>Object.assign(target, source)\<close>: the source's properties are written in its order.\<close>

definition object_assign :: "'v object \<Rightarrow> 'v object \<Rightarrow> 'v object" where
  "object_assign target source = foldl (\<lambda>t (k, v). set_prop t k v) target source"

definition startsWith :: "string \<Rightarrow> string \<Rightarrow> bool" where
  "startsWith s p = (take (length p) s = p)"

text \<open>\<open>toLowerCase\<close> and \<open>trim\<close>, on the ASCII letters and the ASCII white space.\<close>

definition lower_char :: "char \<Rightarrow> char" where
  "lower_char c =
     (let n = (of_char c :: nat) in if 65 \<le> n \<and> n \<le> 90 then char_of (n + 32) else c)"

definition toLowerCase :: "string \<Rightarrow> string" where
  "toLowerCase s = map lower_char s"

definition is_space :: "char \<Rightarrow> bool" where
  "is_space c = (let n = (of_char c :: nat) in (9 \<le> n \<and> n \<le> 13) \<or> n = 32)"

definition trim :: "string \<Rightarrow> string" where
  "trim s = rev (dropWhile is_space (rev (dropWhile is_space s)))"

subsection \<open>decodeURIComponent\<close>

text \<open>
  The ECMAScript \<open>Decode\<close> operation with an empty reserved set, on the UTF-8 bytes of
  the string: every \<open>%XX\<close> escape becomes the byte it names. A \<open>%\<close> without two
  hexadecimal digits, and escaped bytes that are not the UTF-8 encoding of a code point,
  raise \<open>URIError\<close> (\<open>None\<close>).
\<close>

definition hex_digit :: "char \<Rightarrow> nat option" where
  "hex_digit c =
     (let n = (of_char c :: nat) in
      if 48 \<le> n \<and> n \<le> 57 then Some (n - 48)
      else if 65 \<le> n \<and> n \<le> 70 then Some (n - 55)
      else if 97 \<le> n \<and> n \<le> 102 then Some (n - 87)
      else None)"

datatype uri_token = Lit char | Esc nat

fun uri_tokens :: "string \<Rightarrow> uri_token list option" where
  "uri_tokens [] = Some []"
| "uri_tokens (c # cs) =
     (if c = CHR ''%'' then
        (case cs of
           a # b # rest \<Rightarrow>
             (case (hex_digit a, hex_digit b) of
                (Some h, Some l) \<Rightarrow> map_option ((#) (Esc (16 * h + l))) (uri_tokens rest)
              | _ \<Rightarrow> None)
         | _ \<Rightarrow> None)
      else map_option ((#) (Lit c)) (uri_tokens cs))"

fun is_continuation :: "uri_token \<Rightarrow> bool" where
  "is_continuation (Lit c) = False"
| "is_continuation (Esc b) = (128 \<le> b \<and> b < 192)"

fun esc_byte :: "uri_token \<Rightarrow> nat" where
  "esc_byte (Lit c) = of_char c"
| "esc_byte (Esc b) = b"

text \<open>The number of bytes a leading byte announces (1 for a stray continuation byte).\<close>

definition utf8_width :: "nat \<Rightarrow> nat" where
  "utf8_width b =
     (if b < 192 then 1 else if b < 224 then 2 else if b < 240 then 3
      else if b < 248 then 4 else 5)"

text \<open>No overlong form, no surrogate, nothing above U+10FFFF.\<close>

definition utf8_wellformed :: "nat \<Rightarrow> nat list \<Rightarrow> bool" where
  "utf8_wellformed b conts =
     (case conts of
        [] \<Rightarrow> False
      | c # _ \<Rightarrow>
          if b < 194 \<or> 244 < b then False
          else if b = 224 then 160 \<le> c
          else if b = 237 then c < 160
          else if b = 240 then 144 \<le> c
          else if b = 244 then c < 144
          else True)"

fun escapes_ok :: "uri_token list \<Rightarrow> bool" where
  "escapes_ok [] = True"
| "escapes_ok (Lit c # ts) = escapes_ok ts"
| "escapes_ok (Esc b # ts) =
     (if b < 128 then escapes_ok ts
      else
        (let n = utf8_width b; conts = take (n - 1) ts in
         if n = 1 \<or> 4 < n then False
         else if length conts < n - 1 then False
         else if \<not> list_all is_continuation conts then False
         else if \<not> utf8_wellformed b (map esc_byte conts) then False
         else escapes_ok (drop (n - 1) ts)))"

fun token_char :: "uri_token \<Rightarrow> char" where
  "token_char (Lit c) = c"
| "token_char (Esc b) = char_of b"

definition decodeURIComponent :: "string \<Rightarrow> string option" where
  "decodeURIComponent s =
     (case uri_tokens s of
        None \<Rightarrow> None
      | Some ts \<Rightarrow> if escapes_ok ts then Some (map token_char ts) else None)"

subsection \<open>Base64\<close>

definition b64_alphabet :: string where
  "b64_alphabet = ''ABCDEFGHIJKLMNOPQRSTUVWXYZabcdefghijklmnopqrstuvwxyz0123456789+/''"

definition b64_char :: "nat \<Rightarrow> char" where
  "b64_char i = b64_alphabet ! (i mod 64)"

fun base64_bytes :: "nat list \<Rightarrow> string" where
  "base64_bytes [] = []"
| "base64_bytes [a] = [b64_char (a div 4), b64_char ((a mod 4) * 16), CHR ''='', CHR ''='']"
| "base64_bytes [a, b] =
     [b64_char (a div 4), b64_char ((a mod 4) * 16 + b div 16),
      b64_char ((b mod 16) * 4), CHR ''='']"
| "base64_bytes (a # b # c # rest) =
     [b64_char (a div 4), b64_char ((a mod 4) * 16 + b div 16),
      b64_char ((b mod 16) * 4 + c div 64), b64_char (c mod 64)] @ base64_bytes rest"

text \<open>\<open>Buffer.from(bytes).toString('base64')\<close>.\<close>

definition base64 :: "string \<Rightarrow> string" where
  "base64 s = base64_bytes (map of_char s)"

section \<open>The canonical string\<close>

datatype error =
    TypeError string
  | URIError
  | SyntaxError
  | FCError (message: string) (name: string) (code: jsval)
  | TransportError string

text \<open>
  \<open>buildCanonicalHeaders\<close>: the first loop pushes every lower-cased, trimmed key that has
  the prefix onto \<open>list\<close> and writes its value into \<open>fcHeaders\<close>; the list is sorted and
  one line is emitted for each of its entries.
\<close>

definition collect_step ::
  "string \<Rightarrow> string list \<times> string object \<Rightarrow> string \<times> string \<Rightarrow> string list \<times> string object" where
  "collect_step prefix acc kv =
     (let lowerKey = trim (toLowerCase (fst kv)) in
      if startsWith lowerKey prefix
      then (fst acc @ [lowerKey], set_prop (snd acc) lowerKey (snd kv))
      else acc)"

definition buildCanonicalHeaders :: "string object \<Rightarrow> string \<Rightarrow> string" where
  "buildCanonicalHeaders hdrs prefix =
     (let acc = foldl (collect_step prefix) ([], []) hdrs;
          list = sort (fst acc);
          fcHeaders = snd acc
      in concat (map (\<lambda>key. key @ '':'' @ str_or_undefined (map_of fcHeaders key) @ ''\<newline>'') list))"

text \<open>
  The \<open>key=value\<close> strings of the query: one for a string value, one for each element
  of an array value, none for a value of another type.
\<close>

fun query_pairs :: "string \<times> jsval \<Rightarrow> string list" where
  "query_pairs (key, JStr s) = [key @ ''='' @ s]"
| "query_pairs (key, JArr vs) = map (\<lambda>v. key @ ''='' @ to_string v) vs"
| "query_pairs (key, _) = []"

definition query_params :: "jsval object \<Rightarrow> string list" where
  "query_params queries = concat (map query_pairs queries)"

definition composeStringToSign ::
  "string \<Rightarrow> string \<Rightarrow> string object \<Rightarrow> jsval object option \<Rightarrow> error + string" where
  "composeStringToSign method path hdrs queries =
     (let contentMD5 = or_empty (map_of hdrs ''content-md5'');
          contentType = or_empty (map_of hdrs ''content-type'');
          date = str_or_undefined (map_of hdrs ''date'');
          signHeaders = buildCanonicalHeaders hdrs ''x-fc-''
      in case decodeURIComponent path of
           None \<Rightarrow> Inl URIError
         | Some pathUnescaped \<Rightarrow>
             (let str = method @ ''\<newline>'' @ contentMD5 @ ''\<newline>'' @ contentType @ ''\<newline>''
                        @ date @ ''\<newline>'' @ signHeaders @ pathUnescaped
              in case queries of
                   None \<Rightarrow> Inr str
                 | Some q \<Rightarrow> Inr (str @ ''\<newline>'' @ array_join ''\<newline>'' (sort (query_params q)))))"

section \<open>The environment\<close>

text \<open>
  What the client takes from outside the repository: the HMAC and MD5 digests of the
  crypto library, the JSON codec, the query-string encoder, the clock and the
  description of the running process. The theorems below hold for every environment.
\<close>

record env =
  hmac_sha256 :: "string \<Rightarrow> string \<Rightarrow> string"
  md5_hex :: "string \<Rightarrow> string"
  json_stringify :: "jsval \<Rightarrow> string option"
  json_parse :: "string \<Rightarrow> jsval option"
  url_search_params :: "jsval object \<Rightarrow> string"
  utc_now :: string
  process_version :: string
  process_platform :: string
  process_arch :: string

text \<open>
  \<open>hmac_sha256 key message\<close> is the raw digest of
  \<open>crypto.createHmac('sha256', key).update(message, 'utf8').digest()\<close>;
  \<open>md5_hex\<close> is \<open>kitx.md5(buff, 'hex')\<close>; \<open>json_stringify\<close> returns \<open>None\<close> where
  \<open>JSON.stringify\<close> returns \<open>undefined\<close>; \<open>json_parse\<close> returns \<open>None\<close> where
  \<open>JSON.parse\<close> throws; \<open>url_search_params q\<close> is \<open>new URLSearchParams(q).toString()\<close>;
  \<open>utc_now\<close> is \<open>new Date().toUTCString()\<close>.
\<close>

section \<open>The signer\<close>

definition signString :: "env \<Rightarrow> string \<Rightarrow> string \<Rightarrow> string" where
  "signString e source secret = base64 (hmac_sha256 e secret source)"

definition getSignature ::
  "env \<Rightarrow> string \<Rightarrow> string \<Rightarrow> string \<Rightarrow> string \<Rightarrow> string object \<Rightarrow> jsval object option
     \<Rightarrow> error + string" where
  "getSignature e accessKeyID' accessKeySecret' method path hdrs queries =
     (case composeStringToSign method path hdrs queries of
        Inl err \<Rightarrow> Inl err
      | Inr stringToSign \<Rightarrow>
          (let sign = signString e stringToSign accessKeySecret'
           in Inr (''FC '' @ accessKeyID' @ '':'' @ sign)))"

section \<open>The client\<close>

record ClientConfig =
  accessKeyID :: string
  accessKeySecret :: string
  region :: string
  secure :: "string option"
  internal :: "string option"
  timeout :: "int option"
  securityToken :: "string option"
  endpoint :: "string option"
  headers :: "string object option"

text \<open>
  The fields of an \<open>FCClient\<close> instance. A string that is \<open>undefined\<close> at run time is
  falsy like the empty string, which stands for both in the required fields.
\<close>

record client =
  this_accountId :: string
  this_accessKeyID :: string
  this_securityToken :: "string option"
  this_accessKeySecret :: string
  this_endpoint :: string
  this_host :: string
  this_version :: string
  this_timeout :: int
  this_headers :: "string object"

definition FCClient :: "string \<Rightarrow> ClientConfig option \<Rightarrow> error + client" where
  "FCClient accountId config =
     (if accountId = [] then Inl (TypeError ''\"accountid\" must be passed in'')
      else case config of
        None \<Rightarrow> Inl (TypeError ''\"config\" must be passed in'')
      | Some cfg \<Rightarrow>
          if accessKeyID cfg = [] then
            Inl (TypeError ''\"config.accessKeyID\" must be passed in'')
          else if startsWith (accessKeyID cfg) ''STS'' \<and> \<not> truthy_str (securityToken cfg) then
            Inl (TypeError ''\"config.securityToken\" must be passed in for STS'')
          else if accessKeySecret cfg = [] then
            Inl (TypeError ''\"config.accessKeySecret\" must be passed in'')
          else if region cfg = [] then
            Inl (TypeError ''\"config.region\" must be passed in'')
          else
            (let protocol = (if truthy_str (secure cfg) then ''https'' else ''http'');
                 internal' = (if truthy_str (internal cfg) then ''-internal'' else [])
             in Inr \<lparr>
                  this_accountId = accountId,
                  this_accessKeyID = accessKeyID cfg,
                  this_securityToken =
                    (if startsWith (accessKeyID cfg) ''STS'' then securityToken cfg else None),
                  this_accessKeySecret = accessKeySecret cfg,
                  this_endpoint =
                    (if truthy_str (endpoint cfg) then or_empty (endpoint cfg)
                     else protocol @ ''://'' @ accountId @ ''.'' @ region cfg @ internal'
                          @ ''.fc.aliyuncs.com''),
                  this_host = accountId @ ''.'' @ region cfg @ internal' @ ''.fc.aliyuncs.com'',
                  this_version = ''2016-08-15'',
                  this_timeout = (case timeout cfg of Some t \<Rightarrow> t | None \<Rightarrow> 60000),
                  this_headers = (case headers cfg of Some h \<Rightarrow> h | None \<Rightarrow> [])
                \<rparr>))"

definition buildHeaders :: "env \<Rightarrow> client \<Rightarrow> string object" where
  "buildHeaders e c =
     (let hdrs =
        [(''accept'', ''application/json''),
         (''date'', utc_now e),
         (''host'', this_host c),
         (''user-agent'',
            ''Node.js('' @ process_version e @ '') OS('' @ process_platform e @ ''/''
            @ process_arch e @ '') SDK(@alicloud/fc2@v2.2.2)''),
         (''x-fc-account-id'', this_accountId c)]
      in if truthy_str (this_securityToken c)
         then set_prop hdrs ''x-fc-security-token'' (or_empty (this_securityToken c))
         else hdrs)"

section \<open>The request dispatcher\<close>

text \<open>
  The body argument: a buffer (\<open>Buffer.isBuffer\<close>), an object with a \<open>pipe\<close> function,
  or any other value. The payload handed to the transport is a buffer or the stream.
\<close>

datatype 's body = BufferBody string | StreamBody 's | Value jsval

datatype 's payload = Buffered string | Piped 's

fun body_truthy :: "'s body \<Rightarrow> bool" where
  "body_truthy (BufferBody b) = True"
| "body_truthy (StreamBody s) = True"
| "body_truthy (Value v) = truthy v"

fun has_pipe :: "'s body \<Rightarrow> bool" where
  "has_pipe (StreamBody s) = True"
| "has_pipe _ = False"

text \<open>
  Lines 271 to 300 of \<open>request\<close>: the payload and the headers derived from the body.
  \<open>Buffer.from(undefined, 'utf8')\<close> throws a \<open>TypeError\<close> when \<open>JSON.stringify\<close> gives
  \<open>undefined\<close>, before any header is written.
\<close>

definition body_headers ::
  "env \<Rightarrow> 's body \<Rightarrow> string object \<Rightarrow> error + (string object \<times> 's payload option)" where
  "body_headers e body hdrs =
     (if \<not> body_truthy body then Inr (hdrs, None)
      else case body of
        BufferBody b \<Rightarrow>
          (let h1 = set_prop hdrs ''content-type'' ''application/octet-stream'';
               h2 = set_prop h1 ''content-length'' (show_nat (length b));
               h3 = set_prop h2 ''content-md5'' (base64 (md5_hex e b))
           in Inr (h3, Some (Buffered b)))
      | Value (JStr s) \<Rightarrow>
          (let h1 = set_prop hdrs ''content-type'' ''application/octet-stream'';
               h2 = set_prop h1 ''content-length'' (show_nat (length s));
               h3 = set_prop h2 ''content-md5'' (base64 (md5_hex e s))
           in Inr (h3, Some (Buffered s)))
      | StreamBody s \<Rightarrow>
          Inr (set_prop hdrs ''content-type'' ''application/octet-stream'', Some (Piped s))
      | Value v \<Rightarrow>
          (case json_stringify e v of
             None \<Rightarrow>
               Inl (TypeError ''The first argument must be of type string or an instance of Buffer'')
           | Some t \<Rightarrow>
               (let h1 = set_prop hdrs ''content-type'' ''application/json'';
                    h2 = set_prop h1 ''content-length'' (show_nat (length t));
                    h3 = set_prop h2 ''content-md5'' (base64 (md5_hex e t))
                in Inr (h3, Some (Buffered t)))))"

text \<open>\<open>Object.assign(this.buildHeaders(), this.headers, headers)\<close>.\<close>

definition merged_headers :: "env \<Rightarrow> client \<Rightarrow> string object option \<Rightarrow> string object" where
  "merged_headers e c callHeaders =
     object_assign (object_assign (buildHeaders e c) (this_headers c))
       (case callHeaders of Some h \<Rightarrow> h | None \<Rightarrow> [])"

definition request_url :: "env \<Rightarrow> client \<Rightarrow> string \<Rightarrow> jsval object option \<Rightarrow> string" where
  "request_url e c path query =
     (let url = this_endpoint c @ ''/'' @ this_version c @ path
      in case query of
           None \<Rightarrow> url
         | Some q \<Rightarrow> if 0 < length q then url @ ''?'' @ url_search_params e q else url)"

definition queriesToSign :: "string \<Rightarrow> jsval object option \<Rightarrow> jsval object option" where
  "queriesToSign path query =
     (if startsWith path ''/proxy/''
      then Some (case query of Some q \<Rightarrow> q | None \<Rightarrow> [])
      else None)"

record 's wire_request =
  req_url :: string
  req_method :: string
  req_timeout :: int
  req_headers :: "string object"
  req_data :: "'s payload option"

text \<open>\<open>request\<close> up to the call of the transport.\<close>

definition request_prepare ::
  "env \<Rightarrow> client \<Rightarrow> string \<Rightarrow> string \<Rightarrow> jsval object option \<Rightarrow> 's body \<Rightarrow> string object option
     \<Rightarrow> error + 's wire_request" where
  "request_prepare e c method path query body callHeaders =
     (let url = request_url e c path query;
          hdrs = merged_headers e c callHeaders
      in case body_headers e body hdrs of
           Inl err \<Rightarrow> Inl err
         | Inr (hdrs', postBody) \<Rightarrow>
             (case getSignature e (this_accessKeyID c) (this_accessKeySecret c) method
                     (''/'' @ this_version c @ path) hdrs' (queriesToSign path query) of
                Inl err \<Rightarrow> Inl err
              | Inr signature \<Rightarrow>
                  Inr \<lparr> req_url = url, req_method = method, req_timeout = this_timeout c,
                        req_headers = set_prop hdrs' ''authorization'' signature,
                        req_data = postBody \<rparr>))"

section \<open>The response interpreter\<close>

record response =
  statusCode :: int
  resp_headers :: "string object"
  resp_raw :: string

datatype resp_body = Text string | Bytes string | Parsed jsval

record result =
  result_headers :: "string object"
  result_data :: resp_body

text \<open>
  A property read of the decoded body throws a \<open>TypeError\<close> on \<open>null\<close> and
  \<open>undefined\<close>; it gives \<open>undefined\<close> on a string, a buffer, an array or a primitive
  (for the field names read here), and on an object without the key.
\<close>

fun nullish :: "resp_body \<Rightarrow> bool" where
  "nullish (Parsed JNull) = True"
| "nullish (Parsed JUndefined) = True"
| "nullish _ = False"

fun get_field :: "resp_body \<Rightarrow> string \<Rightarrow> jsval" where
  "get_field (Parsed (JObj kv)) k = (case map_of kv k of Some v \<Rightarrow> v | None \<Rightarrow> JUndefined)"
| "get_field _ k = JUndefined"

text \<open>
  Lines 331 to 348 of \<open>request\<close>: the body is read as text unless raw bytes were asked
  for and the response has no \<open>x-fc-error-type\<close> header; a JSON content type has it
  parsed, and a parse failure is rethrown.
\<close>

definition read_body :: "env \<Rightarrow> bool \<Rightarrow> response \<Rightarrow> error + resp_body" where
  "read_body e rawBuf resp =
     (let responseBody =
            (if \<not> rawBuf \<or> truthy_str (map_of (resp_headers resp) ''x-fc-error-type'')
             then Text (resp_raw resp) else Bytes (resp_raw resp));
          contentType = or_empty (map_of (resp_headers resp) ''content-type'')
      in if startsWith contentType ''application/json''
         then (case json_parse e (resp_raw resp) of
                 None \<Rightarrow> Inl SyntaxError
               | Some v \<Rightarrow> Inr (Parsed v))
         else Inr responseBody)"

text \<open>\<open>request\<close> from the transport's response on.\<close>

definition request_interpret ::
  "env \<Rightarrow> string \<Rightarrow> string \<Rightarrow> bool \<Rightarrow> response \<Rightarrow> error + result" where
  "request_interpret e method path rawBuf resp =
     (case read_body e rawBuf resp of
        Inl err \<Rightarrow> Inl err
      | Inr responseBody \<Rightarrow>
          if statusCode resp < 200 \<or> 300 \<le> statusCode resp then
            (let requestid = map_of (resp_headers resp) ''x-fc-request-id''
             in if nullish responseBody then Inl (TypeError ''Cannot read properties of null'')
                else
                  (let errMsg = (if truthy (get_field responseBody ''ErrorMessage'')
                                 then get_field responseBody ''ErrorMessage''
                                 else get_field responseBody ''errorMessage'');
                       errorCode = get_field responseBody ''ErrorCode''
                   in Inl (FCError
                        (method @ '' '' @ path @ '' failed with '' @ show_int (statusCode resp)
                           @ ''. requestid: '' @ str_or_undefined requestid
                           @ '', message: '' @ to_string errMsg @ ''.'')
                        (''FC'' @ to_string errorCode @ ''Error'')
                        errorCode)))
          else Inr \<lparr> result_headers = resp_headers resp, result_data = responseBody \<rparr>)"

text \<open>
  The whole of \<open>request\<close>: one call of the transport, which returns a response with its
  body read, or fails.
\<close>

definition request ::
  "env \<Rightarrow> ('s wire_request \<Rightarrow> string + response) \<Rightarrow> client \<Rightarrow> string \<Rightarrow> string
     \<Rightarrow> jsval object option \<Rightarrow> 's body \<Rightarrow> string object option \<Rightarrow> bool \<Rightarrow> error + result" where
  "request e transport c method path query body callHeaders rawBuf =
     (case request_prepare e c method path query body callHeaders of
        Inl err \<Rightarrow> Inl err
      | Inr req \<Rightarrow>
          (case transport req of
             Inl failure \<Rightarrow> Inl (TransportError failure)
           | Inr resp \<Rightarrow> request_interpret e method path rawBuf resp))"

section \<open>A sample environment\<close>

text \<open>
  An environment and a client for running the model at concrete inputs. The tables hold
  the values of the Node.js primitives at the inputs used below: the HMAC-SHA256 digest
  of the example canonical string under the key \<open>s3cr3t\<close>, the MD5 digest of the text
  \<open>event\<close> and of one JSON document, and the JSON codec on one document each way
  (\<open>JSON.parse\<close> throws on the empty text). Off its table the digest stand-in returns
  the key followed by the message, which keeps what is signed visible.
\<close>

definition example_canonical :: string where
  "example_canonical = ''GET\<newline>\<newline>\<newline>Tue, 15 Nov 1994 08:12:31 GMT\<newline>/2016-08-15/services''"

definition demo_hmac :: "string \<Rightarrow> string \<Rightarrow> string" where
  "demo_hmac key msg =
     (if key = ''s3cr3t'' \<and> msg = example_canonical then
        [CHR 0xC9, CHR 0xF0, CHR 0x00, CHR 0xD0, CHR 0x53, CHR 0x58, CHR 0x25, CHR 0x12,
         CHR 0x4E, CHR 0x1A, CHR 0xC8, CHR 0x5B, CHR 0x03, CHR 0xCB, CHR 0xCF, CHR 0xA8,
         CHR 0x90, CHR 0x18, CHR 0x83, CHR 0x47, CHR 0xE6, CHR 0xBD, CHR 0x00, CHR 0x09,
         CHR 0x57, CHR 0x1E, CHR 0xB1, CHR 0x1F, CHR 0x2A, CHR 0x8F, CHR 0xF3, CHR 0x14]
      else key @ msg)"

definition demo_md5 :: "string \<Rightarrow> string" where
  "demo_md5 b =
     (if b = ''event'' then ''4119639092e62c55ea8be348e4d9260d''
      else if b = ''{\"serviceName\":\"demo\"}'' then ''28804cae9c94c693a03da301e61b7646''
      else ''d41d8cd98f00b204e9800998ecf8427e'')"

definition demo_stringify :: "jsval \<Rightarrow> string option" where
  "demo_stringify v =
     (if v = JObj [(''serviceName'', JStr ''demo'')] then Some ''{\"serviceName\":\"demo\"}''
      else None)"

definition demo_parse :: "string \<Rightarrow> jsval option" where
  "demo_parse s =
     (if s = ''{\"ErrorCode\":\"ServiceNotFound\",\"ErrorMessage\":\"foo\"}''
      then Some (JObj [(''ErrorCode'', JStr ''ServiceNotFound''), (''ErrorMessage'', JStr ''foo'')])
      else None)"

definition demo_search_params :: "jsval object \<Rightarrow> string" where
  "demo_search_params q = (if q = [(''limit'', JStr ''10'')] then ''limit=10'' else [])"

definition demo_env :: env where
  "demo_env =
     \<lparr> hmac_sha256 = demo_hmac, md5_hex = demo_md5, json_stringify = demo_stringify,
       json_parse = demo_parse, url_search_params = demo_search_params,
       utc_now = ''Tue, 15 Nov 1994 08:12:31 GMT'', process_version = ''v18.19.0'',
       process_platform = ''linux'', process_arch = ''x64'' \<rparr>"

definition demo_config :: ClientConfig where
  "demo_config =
     \<lparr> accessKeyID = ''LTAI4Fexample'', accessKeySecret = ''s3cr3t'', region = ''cn-shanghai'',
       secure = None, internal = None, timeout = None, securityToken = None,
       endpoint = None, headers = None \<rparr>"

definition demo_client :: client where
  "demo_client =
     \<lparr> this_accountId = ''acct'', this_accessKeyID = ''LTAI4Fexample'',
       this_securityToken = None, this_accessKeySecret = ''s3cr3t'',
       this_endpoint = ''http://acct.cn-shanghai.fc.aliyuncs.com'',
       this_host = ''acct.cn-shanghai.fc.aliyuncs.com'', this_version = ''2016-08-15'',
       this_timeout = 60000, this_headers = [] \<rparr>"

section \<open>The signer and the canonical string of the example request\<close>

lemma demo_client_built: "FCClient ''acct'' (Some demo_config) = Inr demo_client"
  by code_simp

lemma example_compose:
  "composeStringToSign ''GET'' ''/2016-08-15/services''
     [(''date'', ''Tue, 15 Nov 1994 08:12:31 GMT''), (''host'', ''acct.cn-shanghai.example.com'')]
     None
   = Inr ''GET\<newline>\<newline>\<newline>Tue, 15 Nov 1994 08:12:31 GMT\<newline>/2016-08-15/services''"
  by code_simp

text \<open>
  C2. For method \<open>GET\<close>, path \<open>/2016-08-15/services\<close>, the headers \<open>date\<close> and \<open>host\<close>
  of the example and no query, \<open>composeStringToSign\<close> returns exactly
  \<open>GET\n\n\nTue, 15 Nov 1994 08:12:31 GMT\n/2016-08-15/services\<close>, and the signature is
  the base64 encoding of the HMAC-SHA256 digest of that string under the key \<open>s3cr3t\<close>,
  whatever the access key identifier.
\<close>

theorem example_canonical_string_and_signature:
  "composeStringToSign ''GET'' ''/2016-08-15/services''
     [(''date'', ''Tue, 15 Nov 1994 08:12:31 GMT''), (''host'', ''acct.cn-shanghai.example.com'')]
     None
   = Inr ''GET\<newline>\<newline>\<newline>Tue, 15 Nov 1994 08:12:31 GMT\<newline>/2016-08-15/services''
   \<and> signString e ''GET\<newline>\<newline>\<newline>Tue, 15 Nov 1994 08:12:31 GMT\<newline>/2016-08-15/services'' ''s3cr3t''
     = base64 (hmac_sha256 e ''s3cr3t''
         ''GET\<newline>\<newline>\<newline>Tue, 15 Nov 1994 08:12:31 GMT\<newline>/2016-08-15/services'')
   \<and> getSignature e keyId ''s3cr3t'' ''GET'' ''/2016-08-15/services''
       [(''date'', ''Tue, 15 Nov 1994 08:12:31 GMT''), (''host'', ''acct.cn-shanghai.example.com'')]
       None
     = Inr (''FC '' @ keyId @ '':'' @ base64 (hmac_sha256 e ''s3cr3t''
         ''GET\<newline>\<newline>\<newline>Tue, 15 Nov 1994 08:12:31 GMT\<newline>/2016-08-15/services''))"
  unfolding getSignature_def example_compose by (simp add: signString_def)

text \<open>
  C3. Whenever the canonical string of a request is \<open>canonical\<close>, \<open>getSignature\<close> returns
  the tag \<open>FC\<close>, a space, the access key identifier, a colon, and the base64 encoding of
  the raw HMAC-SHA256 digest of \<open>canonical\<close> keyed by the secret. The result is a function
  of the arguments alone.
\<close>

theorem getSignature_format:
  assumes "composeStringToSign method path hdrs queries = Inr canonical"
  shows "getSignature e keyId secret method path hdrs queries
         = Inr (''FC '' @ keyId @ '':'' @ base64 (hmac_sha256 e secret canonical))"
  using assms by (simp add: getSignature_def signString_def)

theorem getSignature_format_witness:
  "composeStringToSign ''GET'' ''/2016-08-15/services''
     [(''date'', ''Tue, 15 Nov 1994 08:12:31 GMT''), (''host'', ''acct.cn-shanghai.example.com'')]
     None = Inr example_canonical
   \<and> getSignature demo_env ''LTAI4Fexample'' ''s3cr3t'' ''GET'' ''/2016-08-15/services''
       [(''date'', ''Tue, 15 Nov 1994 08:12:31 GMT''), (''host'', ''acct.cn-shanghai.example.com'')]
       None
     = Inr ''FC LTAI4Fexample:yfAA0FNYJRJOGshbA8vPqJAYg0fmvQAJVx6xHyqP8xQ=''"
proof -
  have c: "composeStringToSign ''GET'' ''/2016-08-15/services''
     [(''date'', ''Tue, 15 Nov 1994 08:12:31 GMT''), (''host'', ''acct.cn-shanghai.example.com'')]
     None = Inr example_canonical"
    by code_simp
  have d: "base64 (hmac_sha256 demo_env ''s3cr3t'' example_canonical)
           = ''yfAA0FNYJRJOGshbA8vPqJAYg0fmvQAJVx6xHyqP8xQ=''"
    by code_simp
  show ?thesis
    using c getSignature_format [OF c, of demo_env "''LTAI4Fexample''" "''s3cr3t''"] d by simp
qed

text \<open>
  C8. For a header mapping without a \<open>date\<close> key and a path that decodes, the canonical
  string has the text \<open>undefined\<close> where the date goes, between the content type and
  the canonical header lines.
\<close>

theorem missing_date_is_undefined:
  assumes "map_of hdrs ''date'' = None"
    and "decodeURIComponent path = Some p"
  shows "composeStringToSign method path hdrs queries
         = Inr (method @ ''\<newline>'' @ or_empty (map_of hdrs ''content-md5'') @ ''\<newline>''
                @ or_empty (map_of hdrs ''content-type'') @ ''\<newline>'' @ ''undefined'' @ ''\<newline>''
                @ buildCanonicalHeaders hdrs ''x-fc-'' @ p
                @ (case queries of
                     None \<Rightarrow> []
                   | Some q \<Rightarrow> ''\<newline>'' @ array_join ''\<newline>'' (sort (query_params q))))"
  using assms by (simp add: composeStringToSign_def split: option.split)

theorem missing_date_is_undefined_witness:
  "map_of [(''host'', ''acct.cn-shanghai.example.com'')] ''date'' = None
   \<and> decodeURIComponent ''/2016-08-15/services'' = Some ''/2016-08-15/services''
   \<and> composeStringToSign ''GET'' ''/2016-08-15/services''
        [(''host'', ''acct.cn-shanghai.example.com'')] None
      = Inr ''GET\<newline>\<newline>\<newline>undefined\<newline>/2016-08-15/services''"
proof -
  have h: "map_of [(''host'', ''acct.cn-shanghai.example.com'')] ''date'' = None"
    by simp
  have d: "decodeURIComponent ''/2016-08-15/services'' = Some ''/2016-08-15/services''"
    by code_simp
  have b: "buildCanonicalHeaders [(''host'', ''acct.cn-shanghai.example.com'')] ''x-fc-'' = []"
    by code_simp
  show ?thesis
    using h d missing_date_is_undefined [OF h d, of "''GET''" None] by (simp add: b)
qed

section \<open>Properties of the constructor\<close>

text \<open>
  C7. Constructing a client fails with a \<open>TypeError\<close>, without building a client, when
  the account id, the access key identifier or the access key secret is empty, and when
  the access key identifier begins with \<open>STS\<close> and no session token is given.
\<close>

theorem constructor_rejects_bad_credentials:
  assumes "accountId = [] \<or> accessKeyID cfg = [] \<or> accessKeySecret cfg = []
           \<or> (startsWith (accessKeyID cfg) ''STS'' \<and> \<not> truthy_str (securityToken cfg))"
  shows "\<exists>msg. FCClient accountId (Some cfg) = Inl (TypeError msg)"
  using assms by (auto simp: FCClient_def)

theorem constructor_rejects_bad_credentials_witness:
  "(''acct'' = [] \<or> accessKeyID (demo_config\<lparr>accessKeyID := ''STS.NTexample''\<rparr>) = []
      \<or> accessKeySecret (demo_config\<lparr>accessKeyID := ''STS.NTexample''\<rparr>) = []
      \<or> (startsWith (accessKeyID (demo_config\<lparr>accessKeyID := ''STS.NTexample''\<rparr>)) ''STS''
          \<and> \<not> truthy_str (securityToken (demo_config\<lparr>accessKeyID := ''STS.NTexample''\<rparr>))))
   \<and> (\<exists>msg. FCClient ''acct'' (Some (demo_config\<lparr>accessKeyID := ''STS.NTexample''\<rparr>))
              = Inl (TypeError msg))"
proof -
  have h: "''acct'' = [] \<or> accessKeyID (demo_config\<lparr>accessKeyID := ''STS.NTexample''\<rparr>) = []
      \<or> accessKeySecret (demo_config\<lparr>accessKeyID := ''STS.NTexample''\<rparr>) = []
      \<or> (startsWith (accessKeyID (demo_config\<lparr>accessKeyID := ''STS.NTexample''\<rparr>)) ''STS''
          \<and> \<not> truthy_str (securityToken (demo_config\<lparr>accessKeyID := ''STS.NTexample''\<rparr>)))"
    by (simp add: demo_config_def startsWith_def)
  show ?thesis
    using h constructor_rejects_bad_credentials [OF h] by blast
qed

section \<open>Properties of the request dispatcher\<close>

lemma map_of_set_prop: "map_of (set_prop h k v) = (map_of h)(k \<mapsto> v)"
  by (induction h k v rule: set_prop.induct) auto

lemma map_of_object_assign_other:
  "k \<notin> fst ` set src \<Longrightarrow> map_of (object_assign tgt src) k = map_of tgt k"
  unfolding object_assign_def
proof (induction src arbitrary: tgt)
  case Nil
  then show ?case by simp
next
  case (Cons a src)
  then show ?case by (cases a) (auto simp: map_of_set_prop)
qed

lemma buildHeaders_no_content_keys:
  "map_of (buildHeaders e c) ''content-md5'' = None"
  "map_of (buildHeaders e c) ''content-type'' = None"
  by (simp_all add: buildHeaders_def Let_def map_of_set_prop)

lemma request_prepare_eq:
  assumes "body_headers e body (merged_headers e c callHeaders) = Inr (hs, data)"
    and "decodeURIComponent (''/'' @ this_version c @ path) = Some p"
  shows "request_prepare e c verb path query body callHeaders
         = Inr \<lparr> req_url = request_url e c path query, req_method = verb,
                 req_timeout = this_timeout c,
                 req_headers = set_prop hs ''authorization''
                   (''FC '' @ this_accessKeyID c @ '':'' @
                    signString e
                      (verb @ ''\<newline>'' @ or_empty (map_of hs ''content-md5'') @ ''\<newline>''
                       @ or_empty (map_of hs ''content-type'') @ ''\<newline>''
                       @ str_or_undefined (map_of hs ''date'') @ ''\<newline>''
                       @ buildCanonicalHeaders hs ''x-fc-'' @ p
                       @ (case queriesToSign path query of
                            None \<Rightarrow> []
                          | Some q \<Rightarrow> ''\<newline>'' @ array_join ''\<newline>'' (sort (query_params q))))
                      (this_accessKeySecret c)),
                 req_data = data \<rparr>"
  using assms
  by (simp add: request_prepare_def getSignature_def composeStringToSign_def Let_def
      split: option.split)

lemma request_prepare_Inr:
  assumes "request_prepare e c method path query body callHeaders = Inr req"
  shows "\<exists>hs data p. body_headers e body (merged_headers e c callHeaders) = Inr (hs, data)
           \<and> decodeURIComponent (''/'' @ this_version c @ path) = Some p"
  using assms
  by (auto simp: request_prepare_def getSignature_def composeStringToSign_def Let_def
      split: sum.splits option.splits prod.splits)

text \<open>The transport is called once, with the prepared request.\<close>

lemma request_sends_prepared:
  "request_prepare e c verb path query body callHeaders = Inr req
   \<Longrightarrow> request e transport c verb path query body callHeaders rawBuf
       = (case transport req of
            Inl failure \<Rightarrow> Inl (TransportError failure)
          | Inr resp \<Rightarrow> request_interpret e verb path rawBuf resp)"
  by (simp add: request_def)

lemma body_headers_stream:
  "body_headers e (StreamBody s) h
   = Inr (set_prop h ''content-type'' ''application/octet-stream'', Some (Piped s))"
  by (simp add: body_headers_def)

lemma body_headers_buffered:
  assumes "body_truthy body" and "\<not> has_pipe body"
    and "body_headers e body h = Inr (hs, data)"
  shows "\<exists>bytes ctype.
           data = Some (Buffered bytes)
           \<and> (body = BufferBody bytes \<or> body = Value (JStr bytes)
               \<or> (\<exists>v. body = Value v \<and> json_stringify e v = Some bytes))
           \<and> hs = set_prop (set_prop (set_prop h ''content-type'' ctype)
                     ''content-length'' (show_nat (length bytes)))
                     ''content-md5'' (base64 (md5_hex e bytes))"
proof (cases body)
  case (BufferBody b)
  with assms show ?thesis by (auto simp: body_headers_def Let_def)
next
  case (StreamBody s)
  with assms show ?thesis by simp
next
  case (Value v)
  with assms show ?thesis
    by (cases v) (auto simp: body_headers_def Let_def split: option.splits)
qed

lemma body_headers_falsy:
  "\<not> body_truthy body \<Longrightarrow> body_headers e body h = Inr (h, None)"
  by (simp add: body_headers_def)

text \<open>
  C1. When the body encodes and the path decodes, \<open>request\<close> sends the query on the
  URL whenever it is non-empty, and the string it signs ends with the sorted
  \<open>key=value\<close> lines of the query if and only if the caller's path begins with
  \<open>/proxy/\<close>; for every other path the signed string does not depend on the query.
\<close>

theorem query_signed_iff_proxy_path:
  assumes "body_headers e body (merged_headers e c callHeaders) = Inr (hs, data)"
    and "decodeURIComponent (''/'' @ this_version c @ path) = Some p"
  shows "request_prepare e c method path query body callHeaders
         = Inr \<lparr> req_url = this_endpoint c @ ''/'' @ this_version c @ path
                   @ (case query of
                        None \<Rightarrow> []
                      | Some q \<Rightarrow> if q = [] then [] else ''?'' @ url_search_params e q),
                 req_method = method,
                 req_timeout = this_timeout c,
                 req_headers = set_prop hs ''authorization''
                   (''FC '' @ this_accessKeyID c @ '':'' @
                    signString e
                      (method @ ''\<newline>'' @ or_empty (map_of hs ''content-md5'') @ ''\<newline>''
                       @ or_empty (map_of hs ''content-type'') @ ''\<newline>''
                       @ str_or_undefined (map_of hs ''date'') @ ''\<newline>''
                       @ buildCanonicalHeaders hs ''x-fc-'' @ p
                       @ (if startsWith path ''/proxy/''
                          then ''\<newline>'' @ array_join ''\<newline>''
                                 (sort (query_params (case query of None \<Rightarrow> [] | Some q \<Rightarrow> q)))
                          else []))
                      (this_accessKeySecret c)),
                 req_data = data \<rparr>"
  unfolding request_prepare_eq [OF assms]
  by (simp add: request_url_def queriesToSign_def split: option.split)

theorem query_signed_iff_proxy_path_witness:
  "body_headers demo_env (Value JNull :: unit body) (merged_headers demo_env demo_client None)
     = Inr ([(''accept'', ''application/json''),
             (''date'', ''Tue, 15 Nov 1994 08:12:31 GMT''),
             (''host'', ''acct.cn-shanghai.fc.aliyuncs.com''),
             (''user-agent'', ''Node.js(v18.19.0) OS(linux/x64) SDK(@alicloud/fc2@v2.2.2)''),
             (''x-fc-account-id'', ''acct'')], None)
   \<and> decodeURIComponent (''/'' @ this_version demo_client @ ''/proxy/svc/fn/'')
       = Some ''/2016-08-15/proxy/svc/fn/''
   \<and> decodeURIComponent (''/'' @ this_version demo_client @ ''/services'')
       = Some ''/2016-08-15/services''
   \<and> request_prepare demo_env demo_client ''GET'' ''/proxy/svc/fn/''
         (Some [(''limit'', JStr ''10'')]) (Value JNull :: unit body) None
       = Inr \<lparr> req_url = ''http://acct.cn-shanghai.fc.aliyuncs.com/2016-08-15/proxy/svc/fn/?limit=10'',
               req_method = ''GET'', req_timeout = 60000,
               req_headers =
                 [(''accept'', ''application/json''),
                  (''date'', ''Tue, 15 Nov 1994 08:12:31 GMT''),
                  (''host'', ''acct.cn-shanghai.fc.aliyuncs.com''),
                  (''user-agent'', ''Node.js(v18.19.0) OS(linux/x64) SDK(@alicloud/fc2@v2.2.2)''),
                  (''x-fc-account-id'', ''acct''),
                  (''authorization'', ''FC LTAI4Fexample:'' @
                     signString demo_env
                       ''GET\<newline>\<newline>\<newline>Tue, 15 Nov 1994 08:12:31 GMT\<newline>x-fc-account-id:acct\<newline>/2016-08-15/proxy/svc/fn/\<newline>limit=10''
                       ''s3cr3t'')],
               req_data = None \<rparr>
   \<and> request_prepare demo_env demo_client ''GET'' ''/services''
         (Some [(''limit'', JStr ''10'')]) (Value JNull :: unit body) None
       = Inr \<lparr> req_url = ''http://acct.cn-shanghai.fc.aliyuncs.com/2016-08-15/services?limit=10'',
               req_method = ''GET'', req_timeout = 60000,
               req_headers =
                 [(''accept'', ''application/json''),
                  (''date'', ''Tue, 15 Nov 1994 08:12:31 GMT''),
                  (''host'', ''acct.cn-shanghai.fc.aliyuncs.com''),
                  (''user-agent'', ''Node.js(v18.19.0) OS(linux/x64) SDK(@alicloud/fc2@v2.2.2)''),
                  (''x-fc-account-id'', ''acct''),
                  (''authorization'', ''FC LTAI4Fexample:'' @
                     signString demo_env
                       ''GET\<newline>\<newline>\<newline>Tue, 15 Nov 1994 08:12:31 GMT\<newline>x-fc-account-id:acct\<newline>/2016-08-15/services''
                       ''s3cr3t'')],
               req_data = None \<rparr>"
  (is "?H1 \<and> ?H2 \<and> ?H3 \<and> ?R1 \<and> ?R2")
proof -
  have h1: ?H1 by code_simp
  have h2: ?H2 by code_simp
  have h3: ?H3 by code_simp
  have r1: ?R1
    using query_signed_iff_proxy_path [OF h1 h2, of "''GET''" "Some [(''limit'', JStr ''10'')]"]
    by code_simp
  have r2: ?R2
    using query_signed_iff_proxy_path [OF h1 h3, of "''GET''" "Some [(''limit'', JStr ''10'')]"]
    by code_simp
  show ?thesis by (intro conjI h1 h2 h3 r1 r2)
qed

text \<open>
  C9. On a path that begins with \<open>/proxy/\<close>, with a query that is \<open>null\<close> or has no
  key, the string that is signed is the canonical string up to the decoded path followed
  by one newline.
\<close>

theorem empty_query_on_proxy_path_signs_newline:
  assumes "startsWith path ''/proxy/''"
    and "query = None \<or> query = Some []"
    and "body_headers e body (merged_headers e c callHeaders) = Inr (hs, data)"
    and "decodeURIComponent (''/'' @ this_version c @ path) = Some p"
  shows "request_prepare e c method path query body callHeaders
         = Inr \<lparr> req_url = this_endpoint c @ ''/'' @ this_version c @ path,
                 req_method = method,
                 req_timeout = this_timeout c,
                 req_headers = set_prop hs ''authorization''
                   (''FC '' @ this_accessKeyID c @ '':'' @
                    signString e
                      (method @ ''\<newline>'' @ or_empty (map_of hs ''content-md5'') @ ''\<newline>''
                       @ or_empty (map_of hs ''content-type'') @ ''\<newline>''
                       @ str_or_undefined (map_of hs ''date'') @ ''\<newline>''
                       @ buildCanonicalHeaders hs ''x-fc-'' @ p @ ''\<newline>'')
                      (this_accessKeySecret c)),
                 req_data = data \<rparr>"
  unfolding request_prepare_eq [OF assms(3,4)]
  using assms(1,2)
  by (auto simp: request_url_def queriesToSign_def query_params_def)

theorem empty_query_on_proxy_path_signs_newline_witness:
  "startsWith ''/proxy/svc/fn/'' ''/proxy/''
   \<and> ((None :: jsval object option) = None \<or> (None :: jsval object option) = Some [])
   \<and> body_headers demo_env (Value JNull :: unit body) (merged_headers demo_env demo_client None)
     = Inr ([(''accept'', ''application/json''),
             (''date'', ''Tue, 15 Nov 1994 08:12:31 GMT''),
             (''host'', ''acct.cn-shanghai.fc.aliyuncs.com''),
             (''user-agent'', ''Node.js(v18.19.0) OS(linux/x64) SDK(@alicloud/fc2@v2.2.2)''),
             (''x-fc-account-id'', ''acct'')], None)
   \<and> decodeURIComponent (''/'' @ this_version demo_client @ ''/proxy/svc/fn/'')
       = Some ''/2016-08-15/proxy/svc/fn/''
   \<and> request_prepare demo_env demo_client ''GET'' ''/proxy/svc/fn/'' None
         (Value JNull :: unit body) None
       = Inr \<lparr> req_url = ''http://acct.cn-shanghai.fc.aliyuncs.com/2016-08-15/proxy/svc/fn/'',
               req_method = ''GET'', req_timeout = 60000,
               req_headers =
                 [(''accept'', ''application/json''),
                  (''date'', ''Tue, 15 Nov 1994 08:12:31 GMT''),
                  (''host'', ''acct.cn-shanghai.fc.aliyuncs.com''),
                  (''user-agent'', ''Node.js(v18.19.0) OS(linux/x64) SDK(@alicloud/fc2@v2.2.2)''),
                  (''x-fc-account-id'', ''acct''),
                  (''authorization'', ''FC LTAI4Fexample:'' @
                     signString demo_env
                       ''GET\<newline>\<newline>\<newline>Tue, 15 Nov 1994 08:12:31 GMT\<newline>x-fc-account-id:acct\<newline>/2016-08-15/proxy/svc/fn/\<newline>''
                       ''s3cr3t'')],
               req_data = None \<rparr>"
  (is "?H1 \<and> ?H2 \<and> ?H3 \<and> ?H4 \<and> ?R")
proof -
  have h1: ?H1 by code_simp
  have h2: ?H2 by simp
  have h3: ?H3 by code_simp
  have h4: ?H4 by code_simp
  have r: ?R
    using empty_query_on_proxy_path_signs_newline [OF h1 h2 h3 h4, of "''GET''"]
    by code_simp
  show ?thesis by (intro conjI h1 h2 h3 h4 r)
qed

text \<open>
  C5. For a truthy body and a call that reaches the transport: a body with a \<open>pipe\<close>
  function is handed over as it is, and \<open>content-length\<close> and \<open>content-md5\<close> stay as
  the merged headers had them (absent unless the caller supplied them); any other body
  is handed over as a buffer, \<open>content-length\<close> is its byte length, \<open>content-md5\<close> is
  the base64 encoding of its hexadecimal MD5 digest, and the signed string carries that
  digest in its second line.
\<close>

theorem body_digest_headers_iff_not_streaming:
  assumes "body_truthy body"
    and "request_prepare e c method path query body callHeaders = Inr req"
  shows "if has_pipe body
         then (\<exists>s. body = StreamBody s \<and> req_data req = Some (Piped s))
              \<and> map_of (req_headers req) ''content-length''
                  = map_of (merged_headers e c callHeaders) ''content-length''
              \<and> map_of (req_headers req) ''content-md5''
                  = map_of (merged_headers e c callHeaders) ''content-md5''
         else (\<exists>bytes.
                 (body = BufferBody bytes \<or> body = Value (JStr bytes)
                  \<or> (\<exists>v. body = Value v \<and> json_stringify e v = Some bytes))
                 \<and> req_data req = Some (Buffered bytes)
                 \<and> map_of (req_headers req) ''content-length'' = Some (show_nat (length bytes))
                 \<and> map_of (req_headers req) ''content-md5'' = Some (base64 (md5_hex e bytes))
                 \<and> (\<exists>rest. map_of (req_headers req) ''authorization''
                       = Some (''FC '' @ this_accessKeyID c @ '':'' @
                               signString e
                                 (method @ ''\<newline>'' @ base64 (md5_hex e bytes) @ ''\<newline>'' @ rest)
                                 (this_accessKeySecret c))))"
proof -
  from assms(2) obtain hs data p where
    bh: "body_headers e body (merged_headers e c callHeaders) = Inr (hs, data)"
    and dp: "decodeURIComponent (''/'' @ this_version c @ path) = Some p"
    using request_prepare_Inr by blast
  note req = request_prepare_eq [OF bh dp, of "method" "query"]
  show ?thesis
  proof (cases "has_pipe body")
    case True
    then obtain s where s: "body = StreamBody s" by (cases body) auto
    with bh have "hs = set_prop (merged_headers e c callHeaders) ''content-type''
                         ''application/octet-stream''"
      and "data = Some (Piped s)"
      by (simp_all add: body_headers_stream)
    with assms(2) req s show ?thesis
      by (auto simp: map_of_set_prop)
  next
    case False
    from body_headers_buffered [OF assms(1) False bh] obtain bytes ctype where
      d: "data = Some (Buffered bytes)"
      and b: "body = BufferBody bytes \<or> body = Value (JStr bytes)
               \<or> (\<exists>v. body = Value v \<and> json_stringify e v = Some bytes)"
      and h: "hs = set_prop (set_prop (set_prop (merged_headers e c callHeaders)
                     ''content-type'' ctype)
                     ''content-length'' (show_nat (length bytes)))
                     ''content-md5'' (base64 (md5_hex e bytes))"
      by blast
    have r: "req = \<lparr> req_url = request_url e c path query, req_method = method,
                 req_timeout = this_timeout c,
                 req_headers = set_prop hs ''authorization''
                   (''FC '' @ this_accessKeyID c @ '':'' @
                    signString e
                      (method @ ''\<newline>'' @ or_empty (map_of hs ''content-md5'') @ ''\<newline>''
                       @ or_empty (map_of hs ''content-type'') @ ''\<newline>''
                       @ str_or_undefined (map_of hs ''date'') @ ''\<newline>''
                       @ buildCanonicalHeaders hs ''x-fc-'' @ p
                       @ (case queriesToSign path query of
                            None \<Rightarrow> []
                          | Some q \<Rightarrow> ''\<newline>'' @ array_join ''\<newline>'' (sort (query_params q))))
                      (this_accessKeySecret c)),
                 req_data = data \<rparr>"
      using assms(2) req by simp
    have md5: "map_of hs ''content-md5'' = Some (base64 (md5_hex e bytes))"
      and len: "map_of hs ''content-length'' = Some (show_nat (length bytes))"
      by (simp_all add: h map_of_set_prop)
    have "map_of (req_headers req) ''content-length'' = Some (show_nat (length bytes))"
      and "map_of (req_headers req) ''content-md5'' = Some (base64 (md5_hex e bytes))"
      and "req_data req = Some (Buffered bytes)"
      by (simp_all add: r d md5 len map_of_set_prop)
    moreover have "\<exists>rest. map_of (req_headers req) ''authorization''
                       = Some (''FC '' @ this_accessKeyID c @ '':'' @
                               signString e
                                 (method @ ''\<newline>'' @ base64 (md5_hex e bytes) @ ''\<newline>'' @ rest)
                                 (this_accessKeySecret c))"
      by (rule exI [where x = "or_empty (map_of hs ''content-type'') @ ''\<newline>''
                       @ str_or_undefined (map_of hs ''date'') @ ''\<newline>''
                       @ buildCanonicalHeaders hs ''x-fc-'' @ p
                       @ (case queriesToSign path query of
                            None \<Rightarrow> []
                          | Some q \<Rightarrow> ''\<newline>'' @ array_join ''\<newline>'' (sort (query_params q)))"])
        (simp add: r md5 map_of_set_prop)
    ultimately show ?thesis using False b by auto
  qed
qed

theorem body_digest_headers_iff_not_streaming_witness:
  "body_truthy (Value (JStr ''event'') :: unit body)
   \<and> request_prepare demo_env demo_client ''POST'' ''/services/demo/functions/hello/invocations''
         None (Value (JStr ''event'') :: unit body) None
       = Inr \<lparr> req_url = ''http://acct.cn-shanghai.fc.aliyuncs.com/2016-08-15/services/demo/functions/hello/invocations'',
               req_method = ''POST'', req_timeout = 60000,
               req_headers =
                 [(''accept'', ''application/json''),
                  (''date'', ''Tue, 15 Nov 1994 08:12:31 GMT''),
                  (''host'', ''acct.cn-shanghai.fc.aliyuncs.com''),
                  (''user-agent'', ''Node.js(v18.19.0) OS(linux/x64) SDK(@alicloud/fc2@v2.2.2)''),
                  (''x-fc-account-id'', ''acct''),
                  (''content-type'', ''application/octet-stream''),
                  (''content-length'', ''5''),
                  (''content-md5'', ''NDExOTYzOTA5MmU2MmM1NWVhOGJlMzQ4ZTRkOTI2MGQ=''),
                  (''authorization'', ''FC LTAI4Fexample:'' @
                     signString demo_env
                       ''POST\<newline>NDExOTYzOTA5MmU2MmM1NWVhOGJlMzQ4ZTRkOTI2MGQ=\<newline>application/octet-stream\<newline>Tue, 15 Nov 1994 08:12:31 GMT\<newline>x-fc-account-id:acct\<newline>/2016-08-15/services/demo/functions/hello/invocations''
                       ''s3cr3t'')],
               req_data = Some (Buffered ''event'') \<rparr>
   \<and> body_truthy (StreamBody () :: unit body)
   \<and> request_prepare demo_env demo_client ''POST'' ''/services/demo/functions/hello/invocations''
         None (StreamBody () :: unit body) None
       = Inr \<lparr> req_url = ''http://acct.cn-shanghai.fc.aliyuncs.com/2016-08-15/services/demo/functions/hello/invocations'',
               req_method = ''POST'', req_timeout = 60000,
               req_headers =
                 [(''accept'', ''application/json''),
                  (''date'', ''Tue, 15 Nov 1994 08:12:31 GMT''),
                  (''host'', ''acct.cn-shanghai.fc.aliyuncs.com''),
                  (''user-agent'', ''Node.js(v18.19.0) OS(linux/x64) SDK(@alicloud/fc2@v2.2.2)''),
                  (''x-fc-account-id'', ''acct''),
                  (''content-type'', ''application/octet-stream''),
                  (''authorization'', ''FC LTAI4Fexample:'' @
                     signString demo_env
                       ''POST\<newline>\<newline>application/octet-stream\<newline>Tue, 15 Nov 1994 08:12:31 GMT\<newline>x-fc-account-id:acct\<newline>/2016-08-15/services/demo/functions/hello/invocations''
                       ''s3cr3t'')],
               req_data = Some (Piped ()) \<rparr>"
  (is "?T1 \<and> ?P1 \<and> ?T2 \<and> ?P2")
proof -
  have t1: ?T1 by simp
  have p1: ?P1 by code_simp
  have t2: ?T2 by simp
  have p2: ?P2 by code_simp
  note body_digest_headers_iff_not_streaming [OF t1 p1]
    body_digest_headers_iff_not_streaming [OF t2 p2]
  then show ?thesis using t1 p1 t2 p2 by blast
qed

text \<open>
  C10, as amended. For a falsy body (the empty string, \<open>0\<close>, \<open>null\<close>, \<open>undefined\<close>,
  \<open>false\<close>) and a path that decodes, \<open>request\<close> writes no header of its own besides
  \<open>authorization\<close>, hands no payload to the transport, and signs a canonical string
  whose content-md5 and content-type fields are those of the merged headers: empty when
  neither the client's nor the call's custom headers have the key.
\<close>

theorem falsy_body_is_absent:
  assumes "\<not> body_truthy body"
    and "decodeURIComponent (''/'' @ this_version c @ path) = Some p"
  shows "request_prepare e c method path query body callHeaders
         = Inr \<lparr> req_url = request_url e c path query, req_method = method,
                 req_timeout = this_timeout c,
                 req_headers = set_prop (merged_headers e c callHeaders) ''authorization''
                   (''FC '' @ this_accessKeyID c @ '':'' @
                    signString e
                      (method @ ''\<newline>''
                       @ or_empty (map_of (merged_headers e c callHeaders) ''content-md5'') @ ''\<newline>''
                       @ or_empty (map_of (merged_headers e c callHeaders) ''content-type'') @ ''\<newline>''
                       @ str_or_undefined (map_of (merged_headers e c callHeaders) ''date'') @ ''\<newline>''
                       @ buildCanonicalHeaders (merged_headers e c callHeaders) ''x-fc-'' @ p
                       @ (case queriesToSign path query of
                            None \<Rightarrow> []
                          | Some q \<Rightarrow> ''\<newline>'' @ array_join ''\<newline>'' (sort (query_params q))))
                      (this_accessKeySecret c)),
                 req_data = None \<rparr>
         \<and> (''content-md5'' \<notin> fst ` set (this_headers c)
              \<and> ''content-md5'' \<notin> fst ` set (case callHeaders of Some h \<Rightarrow> h | None \<Rightarrow> [])
            \<longrightarrow> or_empty (map_of (merged_headers e c callHeaders) ''content-md5'') = [])
         \<and> (''content-type'' \<notin> fst ` set (this_headers c)
              \<and> ''content-type'' \<notin> fst ` set (case callHeaders of Some h \<Rightarrow> h | None \<Rightarrow> [])
            \<longrightarrow> or_empty (map_of (merged_headers e c callHeaders) ''content-type'') = [])"
  using request_prepare_eq [OF body_headers_falsy [OF assms(1)] assms(2)]
  by (simp add: merged_headers_def map_of_object_assign_other buildHeaders_no_content_keys)

theorem falsy_body_is_absent_witness:
  "\<not> body_truthy (Value (JStr []) :: unit body)
   \<and> decodeURIComponent
         (''/'' @ this_version demo_client @ ''/services/demo/functions/hello/invocations'')
       = Some ''/2016-08-15/services/demo/functions/hello/invocations''
   \<and> request_prepare demo_env demo_client ''POST'' ''/services/demo/functions/hello/invocations''
         None (Value (JStr []) :: unit body) None
       = Inr \<lparr> req_url = ''http://acct.cn-shanghai.fc.aliyuncs.com/2016-08-15/services/demo/functions/hello/invocations'',
               req_method = ''POST'', req_timeout = 60000,
               req_headers =
                 [(''accept'', ''application/json''),
                  (''date'', ''Tue, 15 Nov 1994 08:12:31 GMT''),
                  (''host'', ''acct.cn-shanghai.fc.aliyuncs.com''),
                  (''user-agent'', ''Node.js(v18.19.0) OS(linux/x64) SDK(@alicloud/fc2@v2.2.2)''),
                  (''x-fc-account-id'', ''acct''),
                  (''authorization'', ''FC LTAI4Fexample:'' @
                     signString demo_env
                       ''POST\<newline>\<newline>\<newline>Tue, 15 Nov 1994 08:12:31 GMT\<newline>x-fc-account-id:acct\<newline>/2016-08-15/services/demo/functions/hello/invocations''
                       ''s3cr3t'')],
               req_data = None \<rparr>"
  (is "?H1 \<and> ?H2 \<and> ?R")
proof -
  have h1: ?H1 by simp
  have h2: ?H2 by code_simp
  have r: ?R
    using falsy_body_is_absent [OF h1 h2, of demo_env "''POST''" None None]
    by code_simp
  show ?thesis by (intro conjI h1 h2 r)
qed

text \<open>
  C10 as stated fails: with the empty string as body and a \<open>content-type\<close> among the
  call's headers, the header is sent and the canonical string's content-type field
  is \<open>text/plain\<close>.
\<close>

theorem falsy_body_keeps_caller_content_type:
  "\<not> body_truthy (Value (JStr []) :: unit body)
   \<and> request_prepare demo_env demo_client ''POST'' ''/services/demo/functions/hello/invocations''
         None (Value (JStr []) :: unit body) (Some [(''content-type'', ''text/plain'')])
       = Inr \<lparr> req_url = ''http://acct.cn-shanghai.fc.aliyuncs.com/2016-08-15/services/demo/functions/hello/invocations'',
               req_method = ''POST'', req_timeout = 60000,
               req_headers =
                 [(''accept'', ''application/json''),
                  (''date'', ''Tue, 15 Nov 1994 08:12:31 GMT''),
                  (''host'', ''acct.cn-shanghai.fc.aliyuncs.com''),
                  (''user-agent'', ''Node.js(v18.19.0) OS(linux/x64) SDK(@alicloud/fc2@v2.2.2)''),
                  (''x-fc-account-id'', ''acct''),
                  (''content-type'', ''text/plain''),
                  (''authorization'', ''FC LTAI4Fexample:'' @
                     signString demo_env
                       ''POST\<newline>\<newline>text/plain\<newline>Tue, 15 Nov 1994 08:12:31 GMT\<newline>x-fc-account-id:acct\<newline>/2016-08-15/services/demo/functions/hello/invocations''
                       ''s3cr3t'')],
               req_data = None \<rparr>"
  by code_simp

section \<open>Properties of the response interpreter\<close>

text \<open>
  C6, as amended. For a response with a status outside 200 to 299 whose body is read
  (parsed when the content type is JSON) to a value other than \<open>null\<close>, \<open>request\<close>
  rejects with an error whose message holds the method, the path, the status code, the
  \<open>x-fc-request-id\<close> header and the body's \<open>ErrorMessage\<close> when that is truthy, else its
  \<open>errorMessage\<close>; whose name is \<open>FC\<close>, the body's \<open>ErrorCode\<close>, \<open>Error\<close>; and whose
  code is the body's \<open>ErrorCode\<close>.
\<close>

theorem error_status_rejects:
  assumes "request_prepare e c method path query body callHeaders = Inr req"
    and "transport req = Inr resp"
    and "statusCode resp < 200 \<or> 300 \<le> statusCode resp"
    and "read_body e rawBuf resp = Inr responseBody"
    and "\<not> nullish responseBody"
  shows "request e transport c method path query body callHeaders rawBuf
         = Inl (FCError
             (method @ '' '' @ path @ '' failed with '' @ show_int (statusCode resp)
                @ ''. requestid: '' @ str_or_undefined (map_of (resp_headers resp) ''x-fc-request-id'')
                @ '', message: ''
                @ to_string (if truthy (get_field responseBody ''ErrorMessage'')
                             then get_field responseBody ''ErrorMessage''
                             else get_field responseBody ''errorMessage'')
                @ ''.'')
             (''FC'' @ to_string (get_field responseBody ''ErrorCode'') @ ''Error'')
             (get_field responseBody ''ErrorCode''))"
  using assms by (simp add: request_def request_interpret_def Let_def)

theorem error_status_rejects_witness:
  "request demo_env
     (\<lambda>req :: unit wire_request. Inr \<lparr> statusCode = 404,
        resp_headers = [(''content-type'', ''application/json''), (''x-fc-request-id'', ''req-1'')],
        resp_raw = ''{\"ErrorCode\":\"ServiceNotFound\",\"ErrorMessage\":\"foo\"}'' \<rparr>)
     demo_client ''GET'' ''/services/demo'' None (Value JNull) None False
   = Inl (FCError ''GET /services/demo failed with 404. requestid: req-1, message: foo.''
            ''FCServiceNotFoundError'' (JStr ''ServiceNotFound''))"
proof -
  let ?resp = "\<lparr> statusCode = 404,
        resp_headers = [(''content-type'', ''application/json''), (''x-fc-request-id'', ''req-1'')],
        resp_raw = ''{\"ErrorCode\":\"ServiceNotFound\",\"ErrorMessage\":\"foo\"}'' \<rparr>"
  let ?transport = "\<lambda>req :: unit wire_request. Inr ?resp :: string + response"
  have falsy: "\<not> body_truthy (Value JNull :: unit body)" by simp
  have path: "decodeURIComponent (''/'' @ this_version demo_client @ ''/services/demo'')
              = Some ''/2016-08-15/services/demo''"
    by code_simp
  from request_prepare_eq [OF body_headers_falsy [OF falsy] path,
      where e = demo_env and callHeaders = None and verb = "''GET''" and query = None]
  obtain req :: "unit wire_request" where
    h1: "request_prepare demo_env demo_client ''GET'' ''/services/demo'' None (Value JNull) None
         = Inr req"
    by blast
  have h2: "?transport req = Inr ?resp" by simp
  have h3: "statusCode ?resp < 200 \<or> 300 \<le> statusCode ?resp" by simp
  have h4: "read_body demo_env False ?resp
            = Inr (Parsed (JObj [(''ErrorCode'', JStr ''ServiceNotFound''),
                                 (''ErrorMessage'', JStr ''foo'')]))"
    by code_simp
  have h5: "\<not> nullish (Parsed (JObj [(''ErrorCode'', JStr ''ServiceNotFound''),
                                      (''ErrorMessage'', JStr ''foo'')]))"
    by simp
  have msg: "''GET'' @ '' '' @ ''/services/demo'' @ '' failed with '' @ show_int 404
             @ ''. requestid: '' @ ''req-1'' @ '', message: '' @ ''foo'' @ ''.''
             = ''GET /services/demo failed with 404. requestid: req-1, message: foo.''"
    by code_simp
  show ?thesis
    using error_status_rejects [OF h1 h2 h3 h4 h5] msg by simp
qed

text \<open>
  C6 as stated fails: a 502 response that declares JSON and has an empty body is rejected
  with the parser's \<open>SyntaxError\<close>, which carries neither status, code nor request id.
\<close>

theorem unparsable_error_response_is_syntax_error:
  "request demo_env
     (\<lambda>req :: unit wire_request. Inr \<lparr> statusCode = 502,
        resp_headers = [(''content-type'', ''application/json'')], resp_raw = [] \<rparr>)
     demo_client ''GET'' ''/services/demo'' None (Value JNull) None False
   = Inl SyntaxError"
  by code_simp

text \<open>A JSON body \<open>null\<close> with an error status ends in a \<open>TypeError\<close>.\<close>

lemma null_error_response_is_type_error:
  "json_parse e (resp_raw resp) = Some JNull
   \<Longrightarrow> map_of (resp_headers resp) ''content-type'' = Some ''application/json''
   \<Longrightarrow> statusCode resp = 500
   \<Longrightarrow> request_interpret e method path rawBuf resp = Inl (TypeError ''Cannot read properties of null'')"
  by (simp add: request_interpret_def read_body_def startsWith_def Let_def)

section \<open>Order of the header keys\<close>

text \<open>
  For header mappings whose lower-cased, trimmed keys are pairwise distinct, and for any
  query mappings, the canonical string depends on the key-value pairs only, not on
  their order.
\<close>

lemma sort_cong_mset: "mset xs = mset ys \<Longrightarrow> sort xs = sort (ys :: string list)"
  by (rule properties_for_sort) simp_all

lemma query_params_mset:
  assumes "mset q1 = mset q2"
  shows "mset (query_params q1) = mset (query_params q2)"
proof -
  have "mset (query_params q) = sum_mset (image_mset (mset \<circ> query_pairs) (mset q))" for q
    unfolding query_params_def mset_concat
    by (simp add: sum_mset_sum_list [symmetric] comp_def del: sum_mset_sum_list)
  with assms show ?thesis by simp
qed

lemma collect_foldl:
  "foldl (collect_step p) acc hs
   = (fst acc @ map (\<lambda>kv. trim (toLowerCase (fst kv)))
                  (filter (\<lambda>kv. startsWith (trim (toLowerCase (fst kv))) p) hs),
      foldl (\<lambda>f kv. set_prop f (trim (toLowerCase (fst kv))) (snd kv)) (snd acc)
        (filter (\<lambda>kv. startsWith (trim (toLowerCase (fst kv))) p) hs))"
  by (induction hs arbitrary: acc) (simp_all add: collect_step_def Let_def)

lemma map_of_foldl_set_prop:
  "map_of (foldl (\<lambda>f kv. set_prop f (g kv) (snd kv)) f0 xs)
   = map_of f0 ++ map_of (rev (map (\<lambda>kv. (g kv, snd kv)) xs))"
proof (induction xs arbitrary: f0)
  case Nil
  then show ?case by simp
next
  case (Cons x xs)
  show ?case
    by (simp add: Cons.IH map_of_set_prop) (auto simp: map_add_def fun_eq_iff split: option.splits)
qed

lemma map_of_rev_distinct:
  "distinct (map fst xs) \<Longrightarrow> map_of (rev xs) = map_of xs"
  by (subst map_of_inject_set) (simp_all add: rev_map [symmetric])

lemma map_of_cong_mset:
  assumes "mset xs = mset ys" and "distinct (map fst xs)"
  shows "map_of xs = map_of ys"
proof -
  from assms(1) have "mset (map fst xs) = mset (map fst ys)" by simp
  from mset_eq_imp_distinct_iff [OF this] assms(2) have "distinct (map fst ys)" by blast
  moreover from assms(1) have "set xs = set ys" by (rule mset_eq_setD)
  ultimately show ?thesis using assms(2) by (simp add: map_of_inject_set)
qed

lemma buildCanonicalHeaders_order_independent:
  assumes "mset h1 = mset h2"
    and "distinct (map (\<lambda>kv. trim (toLowerCase (fst kv))) h1)"
  shows "buildCanonicalHeaders h1 p = buildCanonicalHeaders h2 p"
proof -
  let ?n = "\<lambda>kv :: string \<times> string. trim (toLowerCase (fst kv))"
  let ?sel = "filter (\<lambda>kv. startsWith (?n kv) p)"
  let ?L = "\<lambda>h. map (\<lambda>kv. (?n kv, snd kv)) (?sel h)"
  have shape: "buildCanonicalHeaders h p
      = concat (map (\<lambda>key. key @ '':'' @ str_or_undefined (map_of (rev (?L h)) key) @ ''\<newline>'')
                  (sort (map fst (?L h))))" for h
    by (simp add: buildCanonicalHeaders_def collect_foldl map_of_foldl_set_prop Let_def comp_def)
  have m: "mset (?L h1) = mset (?L h2)" using assms(1) by simp
  have d1: "distinct (map fst (?L h1))"
    using assms(2) by (simp add: comp_def distinct_map_filter)
  have mk: "mset (map fst (?L h1)) = mset (map fst (?L h2))"
    using assms(1) by simp
  from mset_eq_imp_distinct_iff [OF mk] d1 have d2: "distinct (map fst (?L h2))" by blast
  have "map_of (rev (?L h1)) = map_of (?L h1)" by (rule map_of_rev_distinct [OF d1])
  moreover have "map_of (rev (?L h2)) = map_of (?L h2)" by (rule map_of_rev_distinct [OF d2])
  moreover have "map_of (?L h1) = map_of (?L h2)" by (rule map_of_cong_mset [OF m d1])
  moreover have "sort (map fst (?L h1)) = sort (map fst (?L h2))"
    by (rule sort_cong_mset [OF mk])
  ultimately show ?thesis by (simp only: shape)
qed

lemma composeStringToSign_order_independent:
  assumes "mset h1 = mset h2"
    and "distinct (map (\<lambda>kv. trim (toLowerCase (fst kv))) h1)"
    and "rel_option (\<lambda>q1 q2. mset q1 = mset q2) queries1 queries2"
  shows "composeStringToSign method path h1 queries1 = composeStringToSign method path h2 queries2"
proof -
  have "map (\<lambda>kv. trim (toLowerCase (fst kv))) h1 = map (\<lambda>k. trim (toLowerCase k)) (map fst h1)"
    by simp
  with assms(2) have "distinct (map (\<lambda>k. trim (toLowerCase k)) (map fst h1))" by simp
  with distinct_map [of "\<lambda>k. trim (toLowerCase k)" "map fst h1"]
  have "distinct (map fst h1)" by blast
  with assms(1) have lookup: "map_of h1 = map_of h2" by (rule map_of_cong_mset)
  have canon: "buildCanonicalHeaders h1 ''x-fc-'' = buildCanonicalHeaders h2 ''x-fc-''"
    by (rule buildCanonicalHeaders_order_independent [OF assms(1,2)])
  from assms(3) show ?thesis
  proof (cases rule: option.rel_cases)
    case None
    then show ?thesis by (simp add: composeStringToSign_def lookup canon)
  next
    case (Some q1 q2)
    then have "sort (query_params q1) = sort (query_params q2)"
      by (intro sort_cong_mset query_params_mset)
    with Some show ?thesis
      by (simp add: composeStringToSign_def lookup canon Let_def split: option.split)
  qed
qed

text \<open>
  C4. Two header mappings with the same key-value pairs in a different insertion order:
  the keys \<open>x-fc-invocation-type\<close> and \<open>X-Fc-Invocation-Type\<close> are lower-cased to the
  same key, the line is emitted twice, and its value is that of the key inserted last.
  The two canonical strings differ.
\<close>

theorem colliding_header_keys_depend_on_order:
  "mset [(''date'', ''Tue, 15 Nov 1994 08:12:31 GMT''),
         (''x-fc-invocation-type'', ''Sync''), (''X-Fc-Invocation-Type'', ''Async'')]
   = mset [(''date'', ''Tue, 15 Nov 1994 08:12:31 GMT''),
           (''X-Fc-Invocation-Type'', ''Async''), (''x-fc-invocation-type'', ''Sync'')]
   \<and> composeStringToSign ''POST'' ''/2016-08-15/services/demo/functions/hello/invocations''
     [(''date'', ''Tue, 15 Nov 1994 08:12:31 GMT''),
      (''x-fc-invocation-type'', ''Sync''), (''X-Fc-Invocation-Type'', ''Async'')] None
   = Inr ''POST\<newline>\<newline>\<newline>Tue, 15 Nov 1994 08:12:31 GMT\<newline>x-fc-invocation-type:Async\<newline>x-fc-invocation-type:Async\<newline>/2016-08-15/services/demo/functions/hello/invocations''
   \<and> composeStringToSign ''POST'' ''/2016-08-15/services/demo/functions/hello/invocations''
     [(''date'', ''Tue, 15 Nov 1994 08:12:31 GMT''),
      (''X-Fc-Invocation-Type'', ''Async''), (''x-fc-invocation-type'', ''Sync'')] None
   = Inr ''POST\<newline>\<newline>\<newline>Tue, 15 Nov 1994 08:12:31 GMT\<newline>x-fc-invocation-type:Sync\<newline>x-fc-invocation-type:Sync\<newline>/2016-08-15/services/demo/functions/hello/invocations''
   \<and> composeStringToSign ''POST'' ''/2016-08-15/services/demo/functions/hello/invocations''
     [(''date'', ''Tue, 15 Nov 1994 08:12:31 GMT''),
      (''x-fc-invocation-type'', ''Sync''), (''X-Fc-Invocation-Type'', ''Async'')] None
   \<noteq> composeStringToSign ''POST'' ''/2016-08-15/services/demo/functions/hello/invocations''
     [(''date'', ''Tue, 15 Nov 1994 08:12:31 GMT''),
      (''X-Fc-Invocation-Type'', ''Async''), (''x-fc-invocation-type'', ''Sync'')] None"
  (is "?M \<and> ?A \<and> ?B \<and> ?D")
proof -
  have m: ?M by simp
  have a: ?A by code_simp
  have b: ?B by code_simp
  have d: ?D unfolding a b by simp
  show ?thesis by (intro conjI m a b d)
qed

end
